theory Spec2Isabelle
  imports Main
begin

section \<open>The in-memory caches of the things service (package mocks)\<close>

text \<open>
  The source is the second part of \<^verbatim>\<open>src/coap/api/logging.go\<close>: three mock caches,
  \<^verbatim>\<open>thingCacheMock\<close>, \<^verbatim>\<open>profileCacheMock\<close> and \<^verbatim>\<open>groupCacheMock\<close>, each a struct of
  Go maps from string to string behind a mutex. Every method takes the lock for its whole
  body, so a method is one atomic step on the struct: it is modelled as a function from the
  struct (and the arguments) to a result. The \<^verbatim>\<open>context.Context\<close> argument is ignored by
  every method (it is bound to \<^verbatim>\<open>_\<close>) and is left out.

  The spec's four caches are these maps: the CredentialCache is \<^verbatim>\<open>thingCacheMock.things\<close>,
  the two ParentLinkCaches are \<^verbatim>\<open>thingCacheMock.groups\<close> and \<^verbatim>\<open>profileCacheMock.groups\<close>,
  the GroupOrgCache is \<^verbatim>\<open>groupCacheMock.orgs\<close> and the RoleCache is \<^verbatim>\<open>groupCacheMock.roles\<close>.
\<close>

subsection \<open>Errors and results\<close>

text \<open>
  A method that returns \<^verbatim>\<open>error\<close> returns \<open>error + state\<close>: \<open>Inr\<close> of the struct after
  the call when the Go method returns \<^verbatim>\<open>nil\<close>. A method that returns \<^verbatim>\<open>(string, error)\<close>
  returns \<open>error + string\<close>; the empty string that Go returns beside a non-nil error is
  dropped. \<open>ErrNotFound\<close> is \<^verbatim>\<open>errors.ErrNotFound\<close>; \<open>PanicIndexOutOfRange\<close> is the
  run-time panic of an index expression \<^verbatim>\<open>parts[i]\<close> with \<^verbatim>\<open>i >= len(parts)\<close>.
\<close>

datatype error = ErrNotFound | PanicIndexOutOfRange

subsection \<open>Go maps and the range statement\<close>

text \<open>
  A \<^verbatim>\<open>map[string]string\<close> is a partial function with a finite domain. The order in
  which \<^verbatim>\<open>for k := range m\<close> visits the keys is not specified by Go and differs from
  one run to the next: a method that ranges over a map takes the order of the visit as its
  first argument, and \<open>range_keys m ks\<close> says that \<open>ks\<close> is one of the orders Go may
  choose for \<open>m\<close>, every key once.
\<close>

type_synonym go_map = "string \<rightharpoonup> string"

definition range_keys :: "go_map \<Rightarrow> string list \<Rightarrow> bool" where
  "range_keys m ks = (distinct ks \<and> set ks = dom m)"

subsection \<open>thingCacheMock\<close>

record thingCacheMock =
  things :: go_map
  groups :: go_map

definition NewThingCache :: thingCacheMock where
  "NewThingCache = \<lparr>things = Map.empty, thingCacheMock.groups = Map.empty\<rparr>"

definition thingCacheMock_Save :: "thingCacheMock \<Rightarrow> string \<Rightarrow> string \<Rightarrow> error + thingCacheMock" where
  "thingCacheMock_Save tcm key id' = Inr (tcm\<lparr>things := (things tcm)(key \<mapsto> id')\<rparr>)"

definition thingCacheMock_ID :: "thingCacheMock \<Rightarrow> string \<Rightarrow> error + string" where
  "thingCacheMock_ID tcm key =
     (case things tcm key of
        None \<Rightarrow> Inl ErrNotFound
      | Some id' \<Rightarrow> Inr id')"

text \<open>
  The loop of \<^verbatim>\<open>Remove\<close>: \<open>ks\<close> are the keys still to visit. On the first key whose
  value is \<open>id'\<close> the entry is deleted and the method returns from inside the loop.
\<close>

fun Remove_loop :: "string list \<Rightarrow> thingCacheMock \<Rightarrow> string \<Rightarrow> error + thingCacheMock" where
  "Remove_loop [] tcm id' = Inr tcm"
| "Remove_loop (key # ks) tcm id' =
     (if things tcm key = Some id'
      then Inr (tcm\<lparr>things := (things tcm)(key := None)\<rparr>)
      else Remove_loop ks tcm id')"

definition thingCacheMock_Remove :: "string list \<Rightarrow> thingCacheMock \<Rightarrow> string \<Rightarrow> error + thingCacheMock" where
  "thingCacheMock_Remove ks tcm id' = Remove_loop ks tcm id'"

definition thingCacheMock_SaveGroup :: "thingCacheMock \<Rightarrow> string \<Rightarrow> string \<Rightarrow> error + thingCacheMock" where
  "thingCacheMock_SaveGroup tcm thingID groupID =
     Inr (tcm\<lparr>thingCacheMock.groups := (thingCacheMock.groups tcm)(thingID \<mapsto> groupID)\<rparr>)"

definition thingCacheMock_ViewGroup :: "thingCacheMock \<Rightarrow> string \<Rightarrow> error + string" where
  "thingCacheMock_ViewGroup tcm thingID =
     (case thingCacheMock.groups tcm thingID of
        None \<Rightarrow> Inl ErrNotFound
      | Some groupID \<Rightarrow> Inr groupID)"

definition thingCacheMock_RemoveGroup :: "thingCacheMock \<Rightarrow> string \<Rightarrow> error + thingCacheMock" where
  "thingCacheMock_RemoveGroup tcm thingID =
     Inr (tcm\<lparr>thingCacheMock.groups := (thingCacheMock.groups tcm)(thingID := None)\<rparr>)"

subsection \<open>profileCacheMock\<close>

record profileCacheMock =
  groups :: go_map

definition NewProfileCache :: profileCacheMock where
  "NewProfileCache = \<lparr>profileCacheMock.groups = Map.empty\<rparr>"

definition profileCacheMock_SaveGroup :: "profileCacheMock \<Rightarrow> string \<Rightarrow> string \<Rightarrow> error + profileCacheMock" where
  "profileCacheMock_SaveGroup ccm profileID groupID =
     Inr (ccm\<lparr>profileCacheMock.groups := (profileCacheMock.groups ccm)(profileID \<mapsto> groupID)\<rparr>)"

definition profileCacheMock_ViewGroup :: "profileCacheMock \<Rightarrow> string \<Rightarrow> error + string" where
  "profileCacheMock_ViewGroup ccm profileID =
     (case profileCacheMock.groups ccm profileID of
        None \<Rightarrow> Inl ErrNotFound
      | Some groupID \<Rightarrow> Inr groupID)"

definition profileCacheMock_RemoveGroup :: "profileCacheMock \<Rightarrow> string \<Rightarrow> error + profileCacheMock" where
  "profileCacheMock_RemoveGroup ccm profileID =
     Inr (ccm\<lparr>profileCacheMock.groups := (profileCacheMock.groups ccm)(profileID := None)\<rparr>)"

subsection \<open>groupCacheMock\<close>

record groupCacheMock =
  orgs :: go_map
  roles :: go_map

definition NewGroupCache :: groupCacheMock where
  "NewGroupCache = \<lparr>orgs = Map.empty, roles = Map.empty\<rparr>"

text \<open>\<^verbatim>\<open>fmt.Sprintf("%s:%s", groupID, memberID)\<close>: the two strings around one colon.\<close>

definition rKey :: "string \<Rightarrow> string \<Rightarrow> string" where
  "rKey groupID memberID = groupID @ '':'' @ memberID"

text \<open>
  \<^verbatim>\<open>strings.Split(s, sep)\<close> of the Go library, for a separator of one byte (the source
  calls it with \<^verbatim>\<open>":"\<close> only): the substrings of \<open>s\<close> between the occurrences of
  \<open>sep\<close>, one more than there are occurrences; \<^verbatim>\<open>Split("", ":")\<close> is the one empty
  string.
\<close>

fun Split :: "string \<Rightarrow> char \<Rightarrow> string list" where
  "Split [] sep = [[]]"
| "Split (c # s) sep =
     (if c = sep then [] # Split s sep
      else (case Split s sep of
              [] \<Rightarrow> [[c]]
            | p # ps \<Rightarrow> (c # p) # ps))"

definition groupCacheMock_SaveOrg :: "groupCacheMock \<Rightarrow> string \<Rightarrow> string \<Rightarrow> error + groupCacheMock" where
  "groupCacheMock_SaveOrg gcm groupID orgID = Inr (gcm\<lparr>orgs := (orgs gcm)(groupID \<mapsto> orgID)\<rparr>)"

definition groupCacheMock_ViewOrg :: "groupCacheMock \<Rightarrow> string \<Rightarrow> error + string" where
  "groupCacheMock_ViewOrg gcm groupID =
     (case orgs gcm groupID of
        None \<Rightarrow> Inl ErrNotFound
      | Some orgID \<Rightarrow> Inr orgID)"

definition groupCacheMock_RemoveOrg :: "groupCacheMock \<Rightarrow> string \<Rightarrow> error + groupCacheMock" where
  "groupCacheMock_RemoveOrg gcm groupID = Inr (gcm\<lparr>orgs := (orgs gcm)(groupID := None)\<rparr>)"

definition groupCacheMock_SaveRole :: "groupCacheMock \<Rightarrow> string \<Rightarrow> string \<Rightarrow> string \<Rightarrow> error + groupCacheMock" where
  "groupCacheMock_SaveRole gcm groupID memberID role =
     (let key = rKey groupID memberID
      in Inr (gcm\<lparr>roles := (roles gcm)(key \<mapsto> role)\<rparr>))"

definition groupCacheMock_ViewRole :: "groupCacheMock \<Rightarrow> string \<Rightarrow> string \<Rightarrow> error + string" where
  "groupCacheMock_ViewRole gcm groupID memberID =
     (let key = rKey groupID memberID
      in case roles gcm key of
           None \<Rightarrow> Inl ErrNotFound
         | Some role \<Rightarrow> Inr role)"

definition groupCacheMock_RemoveRole :: "groupCacheMock \<Rightarrow> string \<Rightarrow> string \<Rightarrow> error + groupCacheMock" where
  "groupCacheMock_RemoveRole gcm groupID memberID =
     (let key = rKey groupID memberID
      in Inr (gcm\<lparr>roles := (roles gcm)(key := None)\<rparr>))"

text \<open>
  The loop of \<^verbatim>\<open>GroupMemberships\<close>: \<open>ks\<close> are the keys still to visit and \<open>groups'\<close> the
  slice \<^verbatim>\<open>groups\<close> built so far. The condition reads \<^verbatim>\<open>parts[1]\<close> first, which panics when the key
  splits into fewer than two parts; \<^verbatim>\<open>parts[0]\<close> is then in range.
\<close>

fun GroupMemberships_loop :: "string list \<Rightarrow> string \<Rightarrow> string list \<Rightarrow> error + string list" where
  "GroupMemberships_loop [] memberID groups' = Inr groups'"
| "GroupMemberships_loop (k # ks) memberID groups' =
     (case Split k CHR '':'' of
        p0 # p1 # _ \<Rightarrow>
          if p1 = memberID
          then GroupMemberships_loop ks memberID (groups' @ [p0])
          else GroupMemberships_loop ks memberID groups'
      | _ \<Rightarrow> Inl PanicIndexOutOfRange)"

definition groupCacheMock_GroupMemberships :: "string list \<Rightarrow> groupCacheMock \<Rightarrow> string \<Rightarrow> error + string list" where
  "groupCacheMock_GroupMemberships ks gcm memberID = GroupMemberships_loop ks memberID []"

subsection \<open>Reachable states of the groupCacheMock\<close>

text \<open>
  The struct is unexported and its fields are written by its methods only, so the states a
  program can observe are those built from \<^verbatim>\<open>NewGroupCache()\<close> by the four mutating
  methods (the lookups change nothing). \<open>gcm_states P\<close> are the states built when every
  \<^verbatim>\<open>groupID\<close> and \<^verbatim>\<open>memberID\<close> passed to \<^verbatim>\<open>SaveRole\<close> satisfies \<open>P\<close>;
  \<open>gcm_reachable\<close> puts no condition on them.
\<close>

inductive gcm_states :: "(string \<Rightarrow> bool) \<Rightarrow> groupCacheMock \<Rightarrow> bool" for P :: "string \<Rightarrow> bool" where
  st_New: "gcm_states P NewGroupCache"
| st_SaveOrg: "gcm_states P gcm \<Longrightarrow> groupCacheMock_SaveOrg gcm groupID orgID = Inr gcm' \<Longrightarrow> gcm_states P gcm'"
| st_RemoveOrg: "gcm_states P gcm \<Longrightarrow> groupCacheMock_RemoveOrg gcm groupID = Inr gcm' \<Longrightarrow> gcm_states P gcm'"
| st_SaveRole: "gcm_states P gcm \<Longrightarrow> P groupID \<Longrightarrow> P memberID \<Longrightarrow>
     groupCacheMock_SaveRole gcm groupID memberID role = Inr gcm' \<Longrightarrow> gcm_states P gcm'"
| st_RemoveRole: "gcm_states P gcm \<Longrightarrow> groupCacheMock_RemoveRole gcm groupID memberID = Inr gcm' \<Longrightarrow> gcm_states P gcm'"

definition gcm_reachable :: "groupCacheMock \<Rightarrow> bool" where
  "gcm_reachable gcm = gcm_states (\<lambda>_. True) gcm"

text \<open>An identifier with no colon in it.\<close>

definition sep_free :: "string \<Rightarrow> bool" where
  "sep_free s = (CHR '':'' \<notin> set s)"

section \<open>Point lookups and single-key updates\<close>

lemma card_Inr_le_1: "card {v. (case x of None \<Rightarrow> Inl ErrNotFound | Some y \<Rightarrow> Inr y) = Inr v} \<le> Suc 0"
  by (cases x) simp_all

lemma lookup_isl: "isl (case x of None \<Rightarrow> Inl ErrNotFound | Some y \<Rightarrow> Inr y) = (x = None)"
  by (cases x) simp_all

lemma lookup_NotFound: "((case x of None \<Rightarrow> Inl ErrNotFound | Some y \<Rightarrow> Inr y) = Inl e) = (x = None \<and> e = ErrNotFound)"
  by (cases x) auto

text \<open>
  C4. On each of the caches, a save followed by the lookup of the same key succeeds with the
  saved value, from any state and for any strings. On the role cache, \<^verbatim>\<open>SaveRole\<close> then
  \<^verbatim>\<open>ViewRole\<close> of the same pair returns the role, and after \<^verbatim>\<open>RemoveRole\<close> of that
  pair \<^verbatim>\<open>ViewRole\<close> fails with \<open>ErrNotFound\<close>.
\<close>

theorem save_then_resolve:
  "(\<exists>tcm'. thingCacheMock_Save tcm key id' = Inr tcm' \<and> thingCacheMock_ID tcm' key = Inr id')
 \<and> (\<exists>tcm'. thingCacheMock_SaveGroup tcm thingID tgroup = Inr tcm' \<and>
        thingCacheMock_ViewGroup tcm' thingID = Inr tgroup)
 \<and> (\<exists>ccm'. profileCacheMock_SaveGroup ccm profileID pgroup = Inr ccm' \<and>
        profileCacheMock_ViewGroup ccm' profileID = Inr pgroup)
 \<and> (\<exists>gcm'. groupCacheMock_SaveOrg gcm ogroup orgID = Inr gcm' \<and>
        groupCacheMock_ViewOrg gcm' ogroup = Inr orgID)
 \<and> (\<exists>gcm1. groupCacheMock_SaveRole gcm groupID memberID role = Inr gcm1 \<and>
        groupCacheMock_ViewRole gcm1 groupID memberID = Inr role \<and>
        (\<exists>gcm2. groupCacheMock_RemoveRole gcm1 groupID memberID = Inr gcm2 \<and>
           groupCacheMock_ViewRole gcm2 groupID memberID = Inl ErrNotFound))"
  by (simp add: thingCacheMock_Save_def thingCacheMock_ID_def thingCacheMock_SaveGroup_def
      thingCacheMock_ViewGroup_def profileCacheMock_SaveGroup_def profileCacheMock_ViewGroup_def
      groupCacheMock_SaveOrg_def groupCacheMock_ViewOrg_def groupCacheMock_SaveRole_def
      groupCacheMock_ViewRole_def groupCacheMock_RemoveRole_def)

text \<open>
  C5. A save overwrites: after two saves under one key the lookup returns the second value,
  and the state is the very state that the second save alone produces, so nothing of the
  first one is kept. In every state a lookup has at most one value it can succeed with.
  This holds on all five maps.
\<close>

theorem save_overwrites:
  "(\<exists>t1 t2. thingCacheMock_Save tcm key id1 = Inr t1 \<and> thingCacheMock_Save t1 key id2 = Inr t2 \<and>
      thingCacheMock_ID t2 key = Inr id2 \<and> thingCacheMock_Save tcm key id2 = Inr t2)
 \<and> card {v. thingCacheMock_ID tcm key = Inr v} \<le> 1
 \<and> (\<exists>t1 t2. thingCacheMock_SaveGroup tcm thingID tg1 = Inr t1 \<and>
      thingCacheMock_SaveGroup t1 thingID tg2 = Inr t2 \<and>
      thingCacheMock_ViewGroup t2 thingID = Inr tg2 \<and> thingCacheMock_SaveGroup tcm thingID tg2 = Inr t2)
 \<and> card {v. thingCacheMock_ViewGroup tcm thingID = Inr v} \<le> 1
 \<and> (\<exists>c1 c2. profileCacheMock_SaveGroup ccm profileID pg1 = Inr c1 \<and>
      profileCacheMock_SaveGroup c1 profileID pg2 = Inr c2 \<and>
      profileCacheMock_ViewGroup c2 profileID = Inr pg2 \<and>
      profileCacheMock_SaveGroup ccm profileID pg2 = Inr c2)
 \<and> card {v. profileCacheMock_ViewGroup ccm profileID = Inr v} \<le> 1
 \<and> (\<exists>g1 g2. groupCacheMock_SaveOrg gcm ogroup org1 = Inr g1 \<and>
      groupCacheMock_SaveOrg g1 ogroup org2 = Inr g2 \<and>
      groupCacheMock_ViewOrg g2 ogroup = Inr org2 \<and> groupCacheMock_SaveOrg gcm ogroup org2 = Inr g2)
 \<and> card {v. groupCacheMock_ViewOrg gcm ogroup = Inr v} \<le> 1
 \<and> (\<exists>g1 g2. groupCacheMock_SaveRole gcm groupID memberID role1 = Inr g1 \<and>
      groupCacheMock_SaveRole g1 groupID memberID role2 = Inr g2 \<and>
      groupCacheMock_ViewRole g2 groupID memberID = Inr role2 \<and>
      groupCacheMock_SaveRole gcm groupID memberID role2 = Inr g2)
 \<and> card {v. groupCacheMock_ViewRole gcm groupID memberID = Inr v} \<le> 1"
  by (simp add: thingCacheMock_Save_def thingCacheMock_ID_def thingCacheMock_SaveGroup_def
      thingCacheMock_ViewGroup_def profileCacheMock_SaveGroup_def profileCacheMock_ViewGroup_def
      groupCacheMock_SaveOrg_def groupCacheMock_ViewOrg_def groupCacheMock_SaveRole_def
      groupCacheMock_ViewRole_def card_Inr_le_1)

text \<open>
  C6. A point lookup fails exactly when its key (for \<^verbatim>\<open>ViewRole\<close>, the joined key of the
  pair) has no entry in the map, and a lookup fails exactly when its result is
  \<open>ErrNotFound\<close>: no other error comes out of a lookup.
\<close>

theorem lookup_fails_iff_absent:
  "isl (thingCacheMock_ID tcm key) = (key \<notin> dom (things tcm))
 \<and> isl (thingCacheMock_ID tcm key) = (thingCacheMock_ID tcm key = Inl ErrNotFound)
 \<and> isl (thingCacheMock_ViewGroup tcm thingID) = (thingID \<notin> dom (thingCacheMock.groups tcm))
 \<and> isl (thingCacheMock_ViewGroup tcm thingID) = (thingCacheMock_ViewGroup tcm thingID = Inl ErrNotFound)
 \<and> isl (profileCacheMock_ViewGroup ccm profileID) = (profileID \<notin> dom (profileCacheMock.groups ccm))
 \<and> isl (profileCacheMock_ViewGroup ccm profileID) = (profileCacheMock_ViewGroup ccm profileID = Inl ErrNotFound)
 \<and> isl (groupCacheMock_ViewOrg gcm ogroup) = (ogroup \<notin> dom (orgs gcm))
 \<and> isl (groupCacheMock_ViewOrg gcm ogroup) = (groupCacheMock_ViewOrg gcm ogroup = Inl ErrNotFound)
 \<and> isl (groupCacheMock_ViewRole gcm groupID memberID) = (rKey groupID memberID \<notin> dom (roles gcm))
 \<and> isl (groupCacheMock_ViewRole gcm groupID memberID) =
      (groupCacheMock_ViewRole gcm groupID memberID = Inl ErrNotFound)"
  by (simp add: thingCacheMock_ID_def thingCacheMock_ViewGroup_def profileCacheMock_ViewGroup_def
      groupCacheMock_ViewOrg_def groupCacheMock_ViewRole_def lookup_isl lookup_NotFound domIff)

section \<open>Mutations never fail\<close>

lemma Remove_loop_returns: "\<exists>t. Remove_loop ks tcm id' = Inr t"
  by (induction ks) simp_all

lemma Remove_loop_no_match: "id' \<notin> ran (things tcm) \<Longrightarrow> Remove_loop ks tcm id' = Inr tcm"
  by (induction ks) (auto simp: ran_def)

lemma Remove_loop_effect:
  "Remove_loop ks tcm id' = Inr t \<Longrightarrow>
     t = tcm \<or> (\<exists>key \<in> set ks. things tcm key = Some id' \<and> t = tcm\<lparr>things := (things tcm)(key := None)\<rparr>)"
  by (induction ks) (auto split: if_splits)

text \<open>
  C7. Every mutating method returns \<^verbatim>\<open>nil\<close>, from every state and for all arguments
  (for \<^verbatim>\<open>Remove\<close>, whatever the order of the visit). A removal that matches nothing
  leaves the struct as it was: \<^verbatim>\<open>Remove\<close> of an identifier that is the value of no key,
  and \<^verbatim>\<open>RemoveGroup\<close>, \<^verbatim>\<open>RemoveOrg\<close>, \<^verbatim>\<open>RemoveRole\<close> of a key whose lookup fails.
\<close>

theorem mutations_always_succeed:
  "(\<exists>t. thingCacheMock_Save tcm key id' = Inr t)
 \<and> (\<exists>t. thingCacheMock_Remove ks tcm rid = Inr t)
 \<and> (rid \<notin> ran (things tcm) \<longrightarrow> thingCacheMock_Remove ks tcm rid = Inr tcm)
 \<and> (\<exists>t. thingCacheMock_SaveGroup tcm thingID tgroup = Inr t)
 \<and> (\<exists>t. thingCacheMock_RemoveGroup tcm thingID = Inr t)
 \<and> (thingCacheMock_ViewGroup tcm thingID = Inl ErrNotFound \<longrightarrow>
       thingCacheMock_RemoveGroup tcm thingID = Inr tcm)
 \<and> (\<exists>c. profileCacheMock_SaveGroup ccm profileID pgroup = Inr c)
 \<and> (\<exists>c. profileCacheMock_RemoveGroup ccm profileID = Inr c)
 \<and> (profileCacheMock_ViewGroup ccm profileID = Inl ErrNotFound \<longrightarrow>
       profileCacheMock_RemoveGroup ccm profileID = Inr ccm)
 \<and> (\<exists>g. groupCacheMock_SaveOrg gcm ogroup orgID = Inr g)
 \<and> (\<exists>g. groupCacheMock_RemoveOrg gcm ogroup = Inr g)
 \<and> (groupCacheMock_ViewOrg gcm ogroup = Inl ErrNotFound \<longrightarrow>
       groupCacheMock_RemoveOrg gcm ogroup = Inr gcm)
 \<and> (\<exists>g. groupCacheMock_SaveRole gcm groupID memberID role = Inr g)
 \<and> (\<exists>g. groupCacheMock_RemoveRole gcm groupID memberID = Inr g)
 \<and> (groupCacheMock_ViewRole gcm groupID memberID = Inl ErrNotFound \<longrightarrow>
       groupCacheMock_RemoveRole gcm groupID memberID = Inr gcm)"
  by (simp add: thingCacheMock_Save_def thingCacheMock_Remove_def Remove_loop_returns
      Remove_loop_no_match thingCacheMock_SaveGroup_def thingCacheMock_RemoveGroup_def
      thingCacheMock_ViewGroup_def profileCacheMock_SaveGroup_def profileCacheMock_RemoveGroup_def
      profileCacheMock_ViewGroup_def groupCacheMock_SaveOrg_def groupCacheMock_RemoveOrg_def
      groupCacheMock_ViewOrg_def groupCacheMock_SaveRole_def groupCacheMock_RemoveRole_def
      groupCacheMock_ViewRole_def lookup_NotFound fun_upd_idem)

theorem mutations_always_succeed_witness:
  "''d2'' \<notin> ran (things \<lparr>things = [''k'' \<mapsto> ''d1''], thingCacheMock.groups = Map.empty\<rparr>)
 \<and> thingCacheMock_Remove [''k''] \<lparr>things = [''k'' \<mapsto> ''d1''], thingCacheMock.groups = Map.empty\<rparr> ''d2''
     = Inr \<lparr>things = [''k'' \<mapsto> ''d1''], thingCacheMock.groups = Map.empty\<rparr>
 \<and> thingCacheMock_ViewGroup \<lparr>things = [''k'' \<mapsto> ''d1''], thingCacheMock.groups = Map.empty\<rparr> ''t''
     = Inl ErrNotFound
 \<and> thingCacheMock_RemoveGroup \<lparr>things = [''k'' \<mapsto> ''d1''], thingCacheMock.groups = Map.empty\<rparr> ''t''
     = Inr \<lparr>things = [''k'' \<mapsto> ''d1''], thingCacheMock.groups = Map.empty\<rparr>
 \<and> profileCacheMock_ViewGroup NewProfileCache ''p'' = Inl ErrNotFound
 \<and> profileCacheMock_RemoveGroup NewProfileCache ''p'' = Inr NewProfileCache
 \<and> groupCacheMock_ViewOrg NewGroupCache ''g'' = Inl ErrNotFound
 \<and> groupCacheMock_RemoveOrg NewGroupCache ''g'' = Inr NewGroupCache
 \<and> groupCacheMock_ViewRole NewGroupCache ''g'' ''m'' = Inl ErrNotFound
 \<and> groupCacheMock_RemoveRole NewGroupCache ''g'' ''m'' = Inr NewGroupCache"
proof -
  let ?T = "\<lparr>things = [''k'' \<mapsto> ''d1''], thingCacheMock.groups = Map.empty\<rparr>"
  have h1: "''d2'' \<notin> ran (things ?T)" by simp
  have h2: "thingCacheMock_ViewGroup ?T ''t'' = Inl ErrNotFound"
    by (simp add: thingCacheMock_ViewGroup_def)
  have h3: "profileCacheMock_ViewGroup NewProfileCache ''p'' = Inl ErrNotFound"
    by (simp add: profileCacheMock_ViewGroup_def NewProfileCache_def)
  have h4: "groupCacheMock_ViewOrg NewGroupCache ''g'' = Inl ErrNotFound"
    by (simp add: groupCacheMock_ViewOrg_def NewGroupCache_def)
  have h5: "groupCacheMock_ViewRole NewGroupCache ''g'' ''m'' = Inl ErrNotFound"
    by (simp add: groupCacheMock_ViewRole_def NewGroupCache_def)
  from h1 h2 h3 h4 h5
    mutations_always_succeed [where tcm = ?T and ks = "[''k'']" and rid = "''d2''"
      and thingID = "''t''" and ccm = NewProfileCache and profileID = "''p''"
      and gcm = NewGroupCache and ogroup = "''g''" and groupID = "''g''" and memberID = "''m''"]
  show ?thesis by blast
qed

section \<open>Removal by key\<close>

text \<open>
  C8. \<^verbatim>\<open>RemoveGroup\<close> of the thing cache and of the profile cache, and \<^verbatim>\<open>RemoveOrg\<close>,
  delete the entry of the given key: its lookup fails afterwards, the lookup of every other
  key returns what it returned before, and the other map of the struct is untouched.
\<close>

theorem remove_by_key_frame:
  "(\<exists>t. thingCacheMock_RemoveGroup tcm thingID = Inr t \<and>
      thingCacheMock_ViewGroup t thingID = Inl ErrNotFound \<and>
      (\<forall>c. c \<noteq> thingID \<longrightarrow> thingCacheMock_ViewGroup t c = thingCacheMock_ViewGroup tcm c) \<and>
      things t = things tcm)
 \<and> (\<exists>c'. profileCacheMock_RemoveGroup ccm profileID = Inr c' \<and>
      profileCacheMock_ViewGroup c' profileID = Inl ErrNotFound \<and>
      (\<forall>c. c \<noteq> profileID \<longrightarrow> profileCacheMock_ViewGroup c' c = profileCacheMock_ViewGroup ccm c))
 \<and> (\<exists>g. groupCacheMock_RemoveOrg gcm groupID = Inr g \<and>
      groupCacheMock_ViewOrg g groupID = Inl ErrNotFound \<and>
      (\<forall>c. c \<noteq> groupID \<longrightarrow> groupCacheMock_ViewOrg g c = groupCacheMock_ViewOrg gcm c) \<and>
      roles g = roles gcm)"
  by (simp add: thingCacheMock_RemoveGroup_def thingCacheMock_ViewGroup_def
      profileCacheMock_RemoveGroup_def profileCacheMock_ViewGroup_def
      groupCacheMock_RemoveOrg_def groupCacheMock_ViewOrg_def)

theorem remove_by_key_frame_witness:
  "(\<exists>t. thingCacheMock_RemoveGroup
          \<lparr>things = Map.empty, thingCacheMock.groups = [''t1'' \<mapsto> ''g1'', ''t2'' \<mapsto> ''g2'']\<rparr> ''t1'' = Inr t \<and>
        thingCacheMock_ViewGroup t ''t1'' = Inl ErrNotFound \<and>
        thingCacheMock_ViewGroup t ''t2'' = Inr ''g2'')
 \<and> (\<exists>c'. profileCacheMock_RemoveGroup
          \<lparr>profileCacheMock.groups = [''p1'' \<mapsto> ''g1'', ''p2'' \<mapsto> ''g2'']\<rparr> ''p1'' = Inr c' \<and>
        profileCacheMock_ViewGroup c' ''p1'' = Inl ErrNotFound \<and>
        profileCacheMock_ViewGroup c' ''p2'' = Inr ''g2'')
 \<and> (\<exists>g. groupCacheMock_RemoveOrg
          \<lparr>orgs = [''g1'' \<mapsto> ''o1'', ''g2'' \<mapsto> ''o2''], roles = Map.empty\<rparr> ''g1'' = Inr g \<and>
        groupCacheMock_ViewOrg g ''g1'' = Inl ErrNotFound \<and>
        groupCacheMock_ViewOrg g ''g2'' = Inr ''o2'')"
proof -
  let ?T = "\<lparr>things = Map.empty, thingCacheMock.groups = [''t1'' \<mapsto> ''g1'', ''t2'' \<mapsto> ''g2'']\<rparr>"
  let ?C = "\<lparr>profileCacheMock.groups = [''p1'' \<mapsto> ''g1'', ''p2'' \<mapsto> ''g2'']\<rparr>"
  let ?G = "\<lparr>orgs = [''g1'' \<mapsto> ''o1'', ''g2'' \<mapsto> ''o2''], roles = Map.empty\<rparr>"
  have t: "thingCacheMock_ViewGroup ?T ''t2'' = Inr ''g2'' \<and> ''t2'' \<noteq> ''t1''"
    by (simp add: thingCacheMock_ViewGroup_def)
  have c: "profileCacheMock_ViewGroup ?C ''p2'' = Inr ''g2'' \<and> ''p2'' \<noteq> ''p1''"
    by (simp add: profileCacheMock_ViewGroup_def)
  have g: "groupCacheMock_ViewOrg ?G ''g2'' = Inr ''o2'' \<and> ''g2'' \<noteq> ''g1''"
    by (simp add: groupCacheMock_ViewOrg_def)
  from t c g
    remove_by_key_frame [where tcm = ?T and thingID = "''t1''" and ccm = ?C
      and profileID = "''p1''" and gcm = ?G and groupID = "''g1''"]
  show ?thesis by metis
qed

section \<open>Removal of a thing by its identifier\<close>

text \<open>
  Whatever the order of the visit, \<^verbatim>\<open>Remove\<close> deletes at most one entry: of two keys
  that hold the identifier, at least one still resolves to it afterwards.
\<close>

lemma Remove_leaves_a_duplicate:
  assumes "k1 \<noteq> k2" and "things tcm k1 = Some id'" and "things tcm k2 = Some id'"
    and "thingCacheMock_Remove ks tcm id' = Inr t"
  shows "thingCacheMock_ID t k1 = Inr id' \<or> thingCacheMock_ID t k2 = Inr id'"
proof -
  from assms(4) have "Remove_loop ks tcm id' = Inr t"
    by (simp add: thingCacheMock_Remove_def)
  from Remove_loop_effect [OF this] assms(1,2,3) show ?thesis
    by (auto simp: thingCacheMock_ID_def)
qed

text \<open>
  C1. \<^verbatim>\<open>Remove\<close> returns from inside its loop at the first key whose value is the
  identifier, so it deletes one entry, not every one. From the empty cache, after
  \<^verbatim>\<open>Save("k1","d")\<close>, \<^verbatim>\<open>Save("k2","d")\<close> and \<^verbatim>\<open>Remove("d")\<close>, the key visited
  second still resolves to \<^verbatim>\<open>"d"\<close>, in either of the two orders in which the range
  statement can visit the two keys.
\<close>

theorem Remove_stops_at_first_match:
  "\<exists>s1 s2. thingCacheMock_Save NewThingCache ''k1'' ''d'' = Inr s1
     \<and> thingCacheMock_Save s1 ''k2'' ''d'' = Inr s2
     \<and> range_keys (things s2) [''k1'', ''k2'']
     \<and> range_keys (things s2) [''k2'', ''k1'']
     \<and> (\<exists>s3. thingCacheMock_Remove [''k1'', ''k2''] s2 ''d'' = Inr s3
           \<and> thingCacheMock_ID s3 ''k1'' = Inl ErrNotFound
           \<and> thingCacheMock_ID s3 ''k2'' = Inr ''d'')
     \<and> (\<exists>s3. thingCacheMock_Remove [''k2'', ''k1''] s2 ''d'' = Inr s3
           \<and> thingCacheMock_ID s3 ''k2'' = Inl ErrNotFound
           \<and> thingCacheMock_ID s3 ''k1'' = Inr ''d'')"
  by (auto simp add: thingCacheMock_Save_def NewThingCache_def range_keys_def
      thingCacheMock_Remove_def thingCacheMock_ID_def)

section \<open>Joined keys of the role cache\<close>

lemma Split_not_Nil: "Split s c \<noteq> []"
  by (induction s) (auto split: list.splits)

lemma Split_sep_absent: "c \<notin> set s \<Longrightarrow> Split s c = [s]"
  by (induction s) (auto split: list.splits)

lemma Split_first_part: "c \<notin> set g \<Longrightarrow> Split (g @ c # m) c = g # Split m c"
  by (induction g) (auto split: list.splits)

lemma Split_two_parts: "c \<in> set s \<Longrightarrow> 2 \<le> length (Split s c)"
  by (induction s) (auto split: list.splits simp: Split_not_Nil)

lemma Split_rKey: "sep_free g \<Longrightarrow> sep_free m \<Longrightarrow> Split (rKey g m) CHR '':'' = [g, m]"
  by (simp add: rKey_def sep_free_def Split_first_part Split_sep_absent)

lemma rKey_has_sep: "CHR '':'' \<in> set (rKey g m)"
  by (simp add: rKey_def)

lemma rKey_inj_groups:
  "sep_free g \<Longrightarrow> sep_free g' \<Longrightarrow> rKey g m = rKey g' m' \<Longrightarrow> g = g' \<and> m = m'"
  unfolding rKey_def sep_free_def
proof (induction g arbitrary: g')
  case Nil
  then show ?case by (cases g') auto
next
  case (Cons a g)
  then show ?case by (cases g') auto
qed

lemma sep_free_count: "sep_free s = (count_list s CHR '':'' = 0)"
  by (simp add: sep_free_def count_list_0_iff)

lemma rKey_count:
  "count_list (rKey g m) CHR '':'' = Suc (count_list g CHR '':'' + count_list m CHR '':'')"
  by (simp add: rKey_def)

lemma rKey_eq_sep_free:
  assumes "sep_free g0" "sep_free m0" "rKey g m = rKey g0 m0"
  shows "g = g0 \<and> m = m0"
proof -
  have "count_list (rKey g m) CHR '':'' = count_list (rKey g0 m0) CHR '':''"
    using assms(3) by simp
  with assms(1,2) have "sep_free g"
    by (simp add: rKey_count sep_free_count)
  with assms show ?thesis
    using rKey_inj_groups [of g g0 m m0] by simp
qed

lemma gcm_states_keys:
  "gcm_states P gcm \<Longrightarrow> roles gcm k = Some r \<Longrightarrow> \<exists>g m. P g \<and> P m \<and> k = rKey g m"
proof (induction arbitrary: k r rule: gcm_states.induct)
  case st_New
  then show ?case by (simp add: NewGroupCache_def)
next
  case (st_SaveOrg gcm groupID orgID gcm')
  then show ?case by (auto simp: groupCacheMock_SaveOrg_def)
next
  case (st_RemoveOrg gcm groupID gcm')
  then show ?case by (auto simp: groupCacheMock_RemoveOrg_def)
next
  case (st_SaveRole gcm groupID memberID role gcm')
  then show ?case by (fastforce simp: groupCacheMock_SaveRole_def split: if_splits)
next
  case (st_RemoveRole gcm groupID memberID gcm')
  then show ?case by (auto simp: groupCacheMock_RemoveRole_def split: if_splits)
qed

lemma gcm_states_mono: "gcm_states P gcm \<Longrightarrow> gcm_states (\<lambda>_. True) gcm"
  by (induction rule: gcm_states.induct) (auto intro: gcm_states.intros)

lemma loop_returns:
  "(\<And>k. k \<in> set ks \<Longrightarrow> 2 \<le> length (Split k CHR '':'')) \<Longrightarrow>
     \<exists>gs. GroupMemberships_loop ks mem acc = Inr gs"
proof (induction ks arbitrary: acc)
  case Nil
  then show ?case by simp
next
  case (Cons k ks)
  from Cons.prems [of k] obtain p0 p1 ps where "Split k CHR '':'' = p0 # p1 # ps"
    by (cases "Split k CHR '':''" rule: remdups_adj.cases) auto
  with Cons show ?case by simp
qed

lemma loop_exact:
  "(\<And>k. k \<in> set ks \<Longrightarrow> \<exists>g m. sep_free g \<and> sep_free m \<and> k = rKey g m) \<Longrightarrow>
     \<exists>gs. GroupMemberships_loop ks mem acc = Inr (acc @ gs) \<and>
          set gs = {g. rKey g mem \<in> set ks} \<and> (distinct ks \<longrightarrow> distinct gs)"
proof (induction ks arbitrary: acc)
  case Nil
  then show ?case by simp
next
  case (Cons k ks)
  from Cons.prems [of k] obtain g0 m0 where k: "sep_free g0" "sep_free m0" "k = rKey g0 m0"
    by auto
  have split: "Split k CHR '':'' = [g0, m0]"
    using k by (simp add: Split_rKey)
  have same: "\<And>g. (rKey g mem = k) = (g = g0 \<and> mem = m0)"
    using k rKey_eq_sep_free [of g0 m0] by auto
  show ?case
  proof (cases "m0 = mem")
    case True
    from Cons.IH [of "acc @ [g0]"] Cons.prems obtain gs where
      gs: "GroupMemberships_loop ks mem (acc @ [g0]) = Inr ((acc @ [g0]) @ gs)"
        "set gs = {g. rKey g mem \<in> set ks}" "distinct ks \<longrightarrow> distinct gs"
      by auto
    have "GroupMemberships_loop (k # ks) mem acc = Inr (acc @ (g0 # gs))"
      using split True gs(1) by simp
    moreover have "set (g0 # gs) = {g. rKey g mem \<in> set (k # ks)}"
      using gs(2) same True by auto
    moreover have "distinct (k # ks) \<longrightarrow> distinct (g0 # gs)"
      using gs(2,3) k(3) True by auto
    ultimately show ?thesis by blast
  next
    case False
    from Cons.IH [of acc] Cons.prems obtain gs where
      gs: "GroupMemberships_loop ks mem acc = Inr (acc @ gs)"
        "set gs = {g. rKey g mem \<in> set ks}" "distinct ks \<longrightarrow> distinct gs"
      by auto
    have "GroupMemberships_loop (k # ks) mem acc = Inr (acc @ gs)"
      using split False gs(1) by simp
    moreover have "set gs = {g. rKey g mem \<in> set (k # ks)}"
      using gs(2) same False by auto
    moreover have "distinct (k # ks) \<longrightarrow> distinct gs"
      using gs(3) by simp
    ultimately show ?thesis by blast
  qed
qed

lemma ViewRole_Inr_iff:
  "(\<exists>role. groupCacheMock_ViewRole gcm g m = Inr role) = (rKey g m \<in> dom (roles gcm))"
  by (auto simp: groupCacheMock_ViewRole_def split: option.splits)

lemma rKey_last: "m \<noteq> [] \<Longrightarrow> last (rKey g m) = last m"
  by (simp add: rKey_def)

lemma rKey_neq_last: "m \<noteq> [] \<Longrightarrow> k \<noteq> [] \<Longrightarrow> last m \<noteq> last k \<Longrightarrow> rKey g m \<noteq> k"
  using rKey_last [of m g] by auto

lemma ViewRole_other_member:
  assumes "sep_free g'" "sep_free m'" "m' \<noteq> mem"
  shows "rKey g mem \<noteq> rKey g' m'"
  using assms rKey_eq_sep_free [of g' m' g mem] by auto

lemma sep_free_examples:
  "sep_free ''grp-1''" "sep_free ''grp-2''" "sep_free ''user-5''" "sep_free ''user-7''"
  by (simp_all add: sep_free_def)

section \<open>Reverse lookup of memberships\<close>

text \<open>
  C2, as the claim states it, fails: the joined key is split at every colon, so an
  identifier with a colon in it is cut in the wrong place. After
  \<^verbatim>\<open>SaveRole("g","m:x","r")\<close> and \<^verbatim>\<open>SaveRole("g","m:y","r")\<close> the keys are
  \<^verbatim>\<open>"g:m:x"\<close> and \<^verbatim>\<open>"g:m:y"\<close>; \<^verbatim>\<open>GroupMemberships("m")\<close> returns \<^verbatim>\<open>["g","g"]\<close>, a
  duplicate for a member that has no assignment, and \<^verbatim>\<open>GroupMemberships("m:x")\<close> returns
  the empty list for a member that has one. Both orders of the visit give the same.
\<close>

theorem GroupMemberships_separator_counterexample:
  "\<exists>s1 s2. groupCacheMock_SaveRole NewGroupCache ''g'' ''m:x'' ''r'' = Inr s1
     \<and> groupCacheMock_SaveRole s1 ''g'' ''m:y'' ''r'' = Inr s2
     \<and> gcm_reachable s2
     \<and> range_keys (roles s2) [''g:m:x'', ''g:m:y'']
     \<and> range_keys (roles s2) [''g:m:y'', ''g:m:x'']
     \<and> groupCacheMock_GroupMemberships [''g:m:x'', ''g:m:y''] s2 ''m'' = Inr [''g'', ''g'']
     \<and> groupCacheMock_GroupMemberships [''g:m:y'', ''g:m:x''] s2 ''m'' = Inr [''g'', ''g'']
     \<and> (\<forall>g. groupCacheMock_ViewRole s2 g ''m'' = Inl ErrNotFound)
     \<and> groupCacheMock_ViewRole s2 ''g'' ''m:x'' = Inr ''r''
     \<and> groupCacheMock_GroupMemberships [''g:m:x'', ''g:m:y''] s2 ''m:x'' = Inr []
     \<and> groupCacheMock_GroupMemberships [''g:m:y'', ''g:m:x''] s2 ''m:x'' = Inr []"
proof -
  let ?S1 = "\<lparr>orgs = Map.empty, roles = [''g:m:x'' \<mapsto> ''r'']\<rparr>"
  let ?S2 = "\<lparr>orgs = Map.empty, roles = [''g:m:x'' \<mapsto> ''r'', ''g:m:y'' \<mapsto> ''r'']\<rparr>"
  have a: "groupCacheMock_SaveRole NewGroupCache ''g'' ''m:x'' ''r'' = Inr ?S1"
    by (simp add: groupCacheMock_SaveRole_def NewGroupCache_def rKey_def)
  have b: "groupCacheMock_SaveRole ?S1 ''g'' ''m:y'' ''r'' = Inr ?S2"
    by (simp add: groupCacheMock_SaveRole_def rKey_def)
  have "gcm_states (\<lambda>_. True) ?S1"
    by (rule st_SaveRole [OF st_New _ _ a]) simp_all
  then have "gcm_states (\<lambda>_. True) ?S2"
    by (rule st_SaveRole [OF _ _ _ b]) simp_all
  then have c: "gcm_reachable ?S2"
    by (simp add: gcm_reachable_def)
  have d: "range_keys (roles ?S2) [''g:m:x'', ''g:m:y'']" "range_keys (roles ?S2) [''g:m:y'', ''g:m:x'']"
    by (auto simp: range_keys_def)
  have e: "groupCacheMock_GroupMemberships [''g:m:x'', ''g:m:y''] ?S2 ''m'' = Inr [''g'', ''g'']"
    "groupCacheMock_GroupMemberships [''g:m:y'', ''g:m:x''] ?S2 ''m'' = Inr [''g'', ''g'']"
    "groupCacheMock_GroupMemberships [''g:m:x'', ''g:m:y''] ?S2 ''m:x'' = Inr []"
    "groupCacheMock_GroupMemberships [''g:m:y'', ''g:m:x''] ?S2 ''m:x'' = Inr []"
    by (simp_all add: groupCacheMock_GroupMemberships_def)
  have f: "\<forall>g. groupCacheMock_ViewRole ?S2 g ''m'' = Inl ErrNotFound"
    by (simp add: groupCacheMock_ViewRole_def rKey_neq_last)
  have g: "groupCacheMock_ViewRole ?S2 ''g'' ''m:x'' = Inr ''r''"
    by (simp add: groupCacheMock_ViewRole_def rKey_def)
  show ?thesis
    by (rule exI [of _ ?S1], rule exI [of _ ?S2]) (intro conjI a b c d e f g)
qed

text \<open>
  C2, amended. In a state built with identifiers that contain no colon,
  \<^verbatim>\<open>GroupMemberships(memberID)\<close> succeeds, for every order of the visit, with a list
  without duplicates whose elements are exactly the groups \<open>g\<close> for which
  \<^verbatim>\<open>ViewRole(g, memberID)\<close> succeeds, whatever the role. Saving or removing a role of
  another member (colon-free identifiers again) leaves that set of groups as it was.
\<close>

theorem GroupMemberships_exact_sep_free:
  assumes "gcm_states sep_free gcm" and "range_keys (roles gcm) ks"
  shows "\<exists>gs. groupCacheMock_GroupMemberships ks gcm memberID = Inr gs \<and> distinct gs \<and>
           set gs = {g. \<exists>role. groupCacheMock_ViewRole gcm g memberID = Inr role} \<and>
           (\<forall>g' m' role' gcm' ks'.
              sep_free g' \<and> sep_free m' \<and> m' \<noteq> memberID \<and>
              (groupCacheMock_SaveRole gcm g' m' role' = Inr gcm' \<or>
               groupCacheMock_RemoveRole gcm g' m' = Inr gcm') \<and>
              range_keys (roles gcm') ks' \<longrightarrow>
              (\<exists>gs'. groupCacheMock_GroupMemberships ks' gcm' memberID = Inr gs' \<and> set gs' = set gs))"
proof -
  have exact: "\<exists>gs. groupCacheMock_GroupMemberships js s memberID = Inr gs \<and> distinct gs \<and>
           set gs = {g. rKey g memberID \<in> dom (roles s)}"
    if "gcm_states sep_free s" "range_keys (roles s) js" for s js
  proof -
    have "\<And>k. k \<in> set js \<Longrightarrow> \<exists>g m. sep_free g \<and> sep_free m \<and> k = rKey g m"
      using that gcm_states_keys [of sep_free s] by (auto simp: range_keys_def)
    from loop_exact [OF this, of js memberID "[]"] that(2) show ?thesis
      by (auto simp: groupCacheMock_GroupMemberships_def range_keys_def)
  qed
  from exact [OF assms] obtain gs where
    gs: "groupCacheMock_GroupMemberships ks gcm memberID = Inr gs" "distinct gs"
      "set gs = {g. rKey g memberID \<in> dom (roles gcm)}"
    by blast
  have other: "\<exists>gs'. groupCacheMock_GroupMemberships ks' gcm' memberID = Inr gs' \<and> set gs' = set gs"
    if h: "sep_free g'" "sep_free m'" "m' \<noteq> memberID"
      "groupCacheMock_SaveRole gcm g' m' role' = Inr gcm' \<or> groupCacheMock_RemoveRole gcm g' m' = Inr gcm'"
      "range_keys (roles gcm') ks'" for g' m' role' gcm' ks'
  proof -
    have st: "gcm_states sep_free gcm'"
      using h(1,2,4) assms(1) by (auto intro: gcm_states.intros)
    have "\<And>g. rKey g memberID \<noteq> rKey g' m'"
      using h(1,2,3) by (rule ViewRole_other_member)
    then have same: "\<And>g. (rKey g memberID \<in> dom (roles gcm')) = (rKey g memberID \<in> dom (roles gcm))"
      using h(4) by (auto simp: groupCacheMock_SaveRole_def groupCacheMock_RemoveRole_def)
    from exact [OF st h(5)] show ?thesis
      using gs(3) same by auto
  qed
  have "\<forall>g' m' role' gcm' ks'.
          sep_free g' \<and> sep_free m' \<and> m' \<noteq> memberID \<and>
          (groupCacheMock_SaveRole gcm g' m' role' = Inr gcm' \<or>
           groupCacheMock_RemoveRole gcm g' m' = Inr gcm') \<and>
          range_keys (roles gcm') ks' \<longrightarrow>
          (\<exists>gs'. groupCacheMock_GroupMemberships ks' gcm' memberID = Inr gs' \<and> set gs' = set gs)"
    using other by blast
  moreover have "set gs = {g. \<exists>role. groupCacheMock_ViewRole gcm g memberID = Inr role}"
    using gs(3) by (simp add: ViewRole_Inr_iff)
  ultimately show ?thesis
    using gs(1,2) by blast
qed

theorem GroupMemberships_exact_sep_free_witness:
  "gcm_states sep_free
     \<lparr>orgs = Map.empty,
      roles = [''grp-1:user-5'' \<mapsto> ''viewer'', ''grp-2:user-5'' \<mapsto> ''admin'',
               ''grp-1:user-7'' \<mapsto> ''editor'']\<rparr>
 \<and> range_keys
     (roles \<lparr>orgs = Map.empty,
      roles = [''grp-1:user-5'' \<mapsto> ''viewer'', ''grp-2:user-5'' \<mapsto> ''admin'',
               ''grp-1:user-7'' \<mapsto> ''editor'']\<rparr>)
     [''grp-1:user-7'', ''grp-2:user-5'', ''grp-1:user-5'']
 \<and> groupCacheMock_GroupMemberships [''grp-1:user-7'', ''grp-2:user-5'', ''grp-1:user-5'']
     \<lparr>orgs = Map.empty,
      roles = [''grp-1:user-5'' \<mapsto> ''viewer'', ''grp-2:user-5'' \<mapsto> ''admin'',
               ''grp-1:user-7'' \<mapsto> ''editor'']\<rparr> ''user-5'' = Inr [''grp-2'', ''grp-1'']
 \<and> {g. \<exists>role. groupCacheMock_ViewRole
     \<lparr>orgs = Map.empty,
      roles = [''grp-1:user-5'' \<mapsto> ''viewer'', ''grp-2:user-5'' \<mapsto> ''admin'',
               ''grp-1:user-7'' \<mapsto> ''editor'']\<rparr> g ''user-5'' = Inr role} = {''grp-1'', ''grp-2''}
 \<and> (\<exists>gs'. groupCacheMock_GroupMemberships
        [''grp-2:user-7'', ''grp-1:user-5'', ''grp-1:user-7'', ''grp-2:user-5'']
     \<lparr>orgs = Map.empty,
      roles = [''grp-1:user-5'' \<mapsto> ''viewer'', ''grp-2:user-5'' \<mapsto> ''admin'',
               ''grp-1:user-7'' \<mapsto> ''editor'', ''grp-2:user-7'' \<mapsto> ''viewer'']\<rparr> ''user-5'' = Inr gs'
      \<and> set gs' = {''grp-1'', ''grp-2''})"
proof -
  let ?S1 = "\<lparr>orgs = Map.empty, roles = [''grp-1:user-5'' \<mapsto> ''viewer'']\<rparr>"
  let ?S2 = "\<lparr>orgs = Map.empty,
      roles = [''grp-1:user-5'' \<mapsto> ''viewer'', ''grp-2:user-5'' \<mapsto> ''admin'']\<rparr>"
  let ?S = "\<lparr>orgs = Map.empty,
      roles = [''grp-1:user-5'' \<mapsto> ''viewer'', ''grp-2:user-5'' \<mapsto> ''admin'',
               ''grp-1:user-7'' \<mapsto> ''editor'']\<rparr>"
  let ?S' = "\<lparr>orgs = Map.empty,
      roles = [''grp-1:user-5'' \<mapsto> ''viewer'', ''grp-2:user-5'' \<mapsto> ''admin'',
               ''grp-1:user-7'' \<mapsto> ''editor'', ''grp-2:user-7'' \<mapsto> ''viewer'']\<rparr>"
  let ?ks = "[''grp-1:user-7'', ''grp-2:user-5'', ''grp-1:user-5'']"
  let ?ks' = "[''grp-2:user-7'', ''grp-1:user-5'', ''grp-1:user-7'', ''grp-2:user-5'']"
  have "groupCacheMock_SaveRole NewGroupCache ''grp-1'' ''user-5'' ''viewer'' = Inr ?S1"
    by (simp add: groupCacheMock_SaveRole_def NewGroupCache_def rKey_def)
  then have s1: "gcm_states sep_free ?S1"
    by (rule st_SaveRole [OF st_New sep_free_examples(1,3)])
  have "groupCacheMock_SaveRole ?S1 ''grp-2'' ''user-5'' ''admin'' = Inr ?S2"
    by (simp add: groupCacheMock_SaveRole_def rKey_def)
  then have s2: "gcm_states sep_free ?S2"
    by (rule st_SaveRole [OF s1 sep_free_examples(2,3)])
  have "groupCacheMock_SaveRole ?S2 ''grp-1'' ''user-7'' ''editor'' = Inr ?S"
    by (simp add: groupCacheMock_SaveRole_def rKey_def)
  then have s: "gcm_states sep_free ?S"
    by (rule st_SaveRole [OF s2 sep_free_examples(1,4)])
  have r: "range_keys (roles ?S) ?ks"
    by (auto simp: range_keys_def)
  have save: "groupCacheMock_SaveRole ?S ''grp-2'' ''user-7'' ''viewer'' = Inr ?S'"
    by (simp add: groupCacheMock_SaveRole_def rKey_def)
  have r': "range_keys (roles ?S') ?ks'"
    by (auto simp: range_keys_def)
  have run: "groupCacheMock_GroupMemberships ?ks ?S ''user-5'' = Inr [''grp-2'', ''grp-1'']"
    by (simp add: groupCacheMock_GroupMemberships_def)
  note inst = GroupMemberships_exact_sep_free [OF s r, of "''user-5''"]
  have view: "{g. \<exists>role. groupCacheMock_ViewRole ?S g ''user-5'' = Inr role} = {''grp-1'', ''grp-2''}"
    using inst unfolding run
  proof (elim exE conjE)
    fix gs
    assume "Inr [''grp-2'', ''grp-1''] = Inr gs"
      and "set gs = {g. \<exists>role. groupCacheMock_ViewRole ?S g ''user-5'' = Inr role}"
    then show ?thesis by auto
  qed
  have "\<exists>gs'. groupCacheMock_GroupMemberships ?ks' ?S' ''user-5'' = Inr gs' \<and>
      set gs' = set [''grp-2'', ''grp-1'']"
    using inst unfolding run
  proof (elim exE conjE)
    fix gs
    assume "Inr [''grp-2'', ''grp-1''] = Inr gs"
      and all: "\<forall>g' m' role' gcm' ks'.
              sep_free g' \<and> sep_free m' \<and> m' \<noteq> ''user-5'' \<and>
              (groupCacheMock_SaveRole ?S g' m' role' = Inr gcm' \<or>
               groupCacheMock_RemoveRole ?S g' m' = Inr gcm') \<and>
              range_keys (roles gcm') ks' \<longrightarrow>
              (\<exists>gs'. groupCacheMock_GroupMemberships ks' gcm' ''user-5'' = Inr gs' \<and> set gs' = set gs)"
    then have gs: "gs = [''grp-2'', ''grp-1'']" by simp
    have ne: "''user-7'' \<noteq> ''user-5''" by simp
    have "\<exists>gs'. groupCacheMock_GroupMemberships ?ks' ?S' ''user-5'' = Inr gs' \<and> set gs' = set gs"
      by (rule all [rule_format, where g' = "''grp-2''" and m' = "''user-7''" and role' = "''viewer''"])
        (intro conjI disjI1 sep_free_examples(2,4) ne save r')
    then show ?thesis unfolding gs .
  qed
  then have other: "\<exists>gs'. groupCacheMock_GroupMemberships ?ks' ?S' ''user-5'' = Inr gs' \<and>
      set gs' = {''grp-1'', ''grp-2''}"
    by (simp add: insert_commute)
  show ?thesis
    by (intro conjI s r run view other)
qed

section \<open>Removal of a role\<close>

text \<open>
  C3, as the claim states it, fails: two different pairs can join to one key. After
  \<^verbatim>\<open>SaveRole("a","b:c","r")\<close> the map holds the key \<^verbatim>\<open>"a:b:c"\<close>, which is also the key
  of the pair \<^verbatim>\<open>("a:b","c")\<close>; \<^verbatim>\<open>RemoveRole("a:b","c")\<close> deletes it, and
  \<^verbatim>\<open>ViewRole("a","b:c")\<close>, the lookup of another pair, turns from \<^verbatim>\<open>"r"\<close> into
  \<open>ErrNotFound\<close>.
\<close>

theorem RemoveRole_aliasing_counterexample:
  "\<exists>s1 s2. groupCacheMock_SaveRole NewGroupCache ''a'' ''b:c'' ''r'' = Inr s1
     \<and> groupCacheMock_ViewRole s1 ''a'' ''b:c'' = Inr ''r''
     \<and> (''a'', ''b:c'') \<noteq> (''a:b'', ''c'')
     \<and> groupCacheMock_RemoveRole s1 ''a:b'' ''c'' = Inr s2
     \<and> groupCacheMock_ViewRole s2 ''a'' ''b:c'' = Inl ErrNotFound"
  by (simp add: groupCacheMock_SaveRole_def groupCacheMock_ViewRole_def
      groupCacheMock_RemoveRole_def NewGroupCache_def rKey_def)

text \<open>
  C3, amended. \<^verbatim>\<open>RemoveRole(groupID, memberID)\<close> deletes the entry under the joined key
  of the pair: the lookup of the pair fails afterwards, the lookup of every pair whose
  joined key is another one returns what it returned before, and that is every other pair
  when the two group identifiers contain no colon. The map of organisations is untouched,
  and when the lookup of the pair failed before, the struct is left as it was.
\<close>

theorem RemoveRole_frame:
  "\<exists>g. groupCacheMock_RemoveRole gcm groupID memberID = Inr g
     \<and> groupCacheMock_ViewRole g groupID memberID = Inl ErrNotFound
     \<and> (\<forall>g' m'. rKey g' m' \<noteq> rKey groupID memberID \<longrightarrow>
           groupCacheMock_ViewRole g g' m' = groupCacheMock_ViewRole gcm g' m')
     \<and> (\<forall>g' m'. sep_free groupID \<and> sep_free g' \<and> (g', m') \<noteq> (groupID, memberID) \<longrightarrow>
           groupCacheMock_ViewRole g g' m' = groupCacheMock_ViewRole gcm g' m')
     \<and> orgs g = orgs gcm
     \<and> (groupCacheMock_ViewRole gcm groupID memberID = Inl ErrNotFound \<longrightarrow> g = gcm)"
proof -
  let ?g = "gcm\<lparr>roles := (roles gcm)(rKey groupID memberID := None)\<rparr>"
  have 1: "groupCacheMock_RemoveRole gcm groupID memberID = Inr ?g"
    by (simp add: groupCacheMock_RemoveRole_def)
  have 2: "groupCacheMock_ViewRole ?g groupID memberID = Inl ErrNotFound"
    by (simp add: groupCacheMock_ViewRole_def)
  have 3: "groupCacheMock_ViewRole ?g g' m' = groupCacheMock_ViewRole gcm g' m'"
    if "rKey g' m' \<noteq> rKey groupID memberID" for g' m'
    using that by (simp add: groupCacheMock_ViewRole_def)
  have 4: "groupCacheMock_ViewRole ?g g' m' = groupCacheMock_ViewRole gcm g' m'"
    if "sep_free groupID \<and> sep_free g' \<and> (g', m') \<noteq> (groupID, memberID)" for g' m'
  proof -
    from that have "rKey g' m' \<noteq> rKey groupID memberID"
      using rKey_inj_groups [of g' groupID m' memberID] by auto
    then show ?thesis by (rule 3)
  qed
  have 5: "orgs ?g = orgs gcm"
    by simp
  have 6: "?g = gcm" if "groupCacheMock_ViewRole gcm groupID memberID = Inl ErrNotFound"
    using that by (simp add: groupCacheMock_ViewRole_def lookup_NotFound fun_upd_idem)
  from 1 2 3 4 5 6 show ?thesis by blast
qed

theorem RemoveRole_frame_witness:
  "(\<exists>g. groupCacheMock_RemoveRole
          \<lparr>orgs = Map.empty, roles = [''g1:m1'' \<mapsto> ''admin'', ''g2:m1'' \<mapsto> ''viewer'']\<rparr>
          ''g1'' ''m1'' = Inr g
       \<and> groupCacheMock_ViewRole g ''g1'' ''m1'' = Inl ErrNotFound
       \<and> groupCacheMock_ViewRole g ''g2'' ''m1'' = Inr ''viewer'')
 \<and> groupCacheMock_ViewRole
          \<lparr>orgs = Map.empty, roles = [''g1:m1'' \<mapsto> ''admin'', ''g2:m1'' \<mapsto> ''viewer'']\<rparr>
          ''g3'' ''m1'' = Inl ErrNotFound
 \<and> groupCacheMock_RemoveRole
          \<lparr>orgs = Map.empty, roles = [''g1:m1'' \<mapsto> ''admin'', ''g2:m1'' \<mapsto> ''viewer'']\<rparr>
          ''g3'' ''m1''
     = Inr \<lparr>orgs = Map.empty, roles = [''g1:m1'' \<mapsto> ''admin'', ''g2:m1'' \<mapsto> ''viewer'']\<rparr>"
proof -
  let ?S = "\<lparr>orgs = Map.empty, roles = [''g1:m1'' \<mapsto> ''admin'', ''g2:m1'' \<mapsto> ''viewer'']\<rparr>"
  have hyp: "sep_free ''g1'' \<and> sep_free ''g2'' \<and> (''g2'', ''m1'') \<noteq> (''g1'', ''m1'')"
    by (simp add: sep_free_def)
  have before: "groupCacheMock_ViewRole ?S ''g2'' ''m1'' = Inr ''viewer''"
    by (simp add: groupCacheMock_ViewRole_def rKey_def)
  have absent: "groupCacheMock_ViewRole ?S ''g3'' ''m1'' = Inl ErrNotFound"
    by (simp add: groupCacheMock_ViewRole_def rKey_def)
  have first: "\<exists>g. groupCacheMock_RemoveRole ?S ''g1'' ''m1'' = Inr g
       \<and> groupCacheMock_ViewRole g ''g1'' ''m1'' = Inl ErrNotFound
       \<and> groupCacheMock_ViewRole g ''g2'' ''m1'' = Inr ''viewer''"
    using RemoveRole_frame [of ?S "''g1''" "''m1''"]
  proof (elim exE conjE)
    fix g
    assume a: "groupCacheMock_RemoveRole ?S ''g1'' ''m1'' = Inr g"
      and b: "groupCacheMock_ViewRole g ''g1'' ''m1'' = Inl ErrNotFound"
      and c: "\<forall>g' m'. sep_free ''g1'' \<and> sep_free g' \<and> (g', m') \<noteq> (''g1'', ''m1'') \<longrightarrow>
           groupCacheMock_ViewRole g g' m' = groupCacheMock_ViewRole ?S g' m'"
    have "groupCacheMock_ViewRole g ''g2'' ''m1'' = groupCacheMock_ViewRole ?S ''g2'' ''m1''"
      by (rule c [rule_format]) (rule hyp)
    with before have "groupCacheMock_ViewRole g ''g2'' ''m1'' = Inr ''viewer''"
      by (rule ssubst [rotated])
    with a b show ?thesis by (intro exI conjI)
  qed
  have second: "groupCacheMock_RemoveRole ?S ''g3'' ''m1'' = Inr ?S"
    using RemoveRole_frame [of ?S "''g3''" "''m1''"]
  proof (elim exE conjE)
    fix g
    assume a: "groupCacheMock_RemoveRole ?S ''g3'' ''m1'' = Inr g"
      and d: "groupCacheMock_ViewRole ?S ''g3'' ''m1'' = Inl ErrNotFound \<longrightarrow> g = ?S"
    from d absent have "g = ?S" by (rule mp)
    with a show ?thesis by (rule subst [rotated])
  qed
  show ?thesis
    by (intro conjI first absent second)
qed

section \<open>The index expressions of GroupMemberships\<close>

lemma reachable_key_shape:
  assumes "gcm_reachable gcm" "k \<in> dom (roles gcm)"
  shows "(\<exists>g m. k = rKey g m) \<and> CHR '':'' \<in> set k \<and> 2 \<le> length (Split k CHR '':'')"
proof -
  from assms obtain r where "roles gcm k = Some r" by auto
  with assms(1) obtain g m where k: "k = rKey g m"
    using gcm_states_keys [of "\<lambda>_. True" gcm k r] by (auto simp: gcm_reachable_def)
  then have "CHR '':'' \<in> set k" by (simp add: rKey_has_sep)
  with k show ?thesis by (auto simp: Split_two_parts)
qed

lemma loop_empty:
  assumes "\<And>k. k \<in> set ks \<Longrightarrow> \<exists>g m. sep_free g \<and> sep_free m \<and> k = rKey g m"
    and "\<And>g. rKey g mem \<notin> set ks"
  shows "GroupMemberships_loop ks mem [] = Inr []"
proof -
  from loop_exact [OF assms(1), of ks mem "[]"] obtain gs where
    "GroupMemberships_loop ks mem [] = Inr gs" "set gs = {g. rKey g mem \<in> set ks}"
    by auto
  with assms(2) show ?thesis by simp
qed

text \<open>
  C9. In every reachable state of the group cache, every key of the map \<^verbatim>\<open>roles\<close> is
  the join of a group and a member identifier, so it contains a colon and splits into at
  least two parts; \<^verbatim>\<open>GroupMemberships\<close>, visiting the keys in any order, therefore never
  panics on \<^verbatim>\<open>parts[1]\<close> or \<^verbatim>\<open>parts[0]\<close>.
\<close>

theorem role_keys_split_in_bounds:
  assumes "gcm_reachable gcm" and "range_keys (roles gcm) ks"
  shows "(\<forall>k \<in> dom (roles gcm).
            (\<exists>g m. k = rKey g m) \<and> CHR '':'' \<in> set k \<and> 2 \<le> length (Split k CHR '':''))
         \<and> groupCacheMock_GroupMemberships ks gcm memberID \<noteq> Inl PanicIndexOutOfRange"
proof -
  have shape: "\<forall>k \<in> dom (roles gcm).
      (\<exists>g m. k = rKey g m) \<and> CHR '':'' \<in> set k \<and> 2 \<le> length (Split k CHR '':'')"
    using assms(1) reachable_key_shape by blast
  have "\<And>k. k \<in> set ks \<Longrightarrow> 2 \<le> length (Split k CHR '':'')"
    using shape assms(2) by (simp add: range_keys_def)
  then obtain gs where "GroupMemberships_loop ks memberID [] = Inr gs"
    using loop_returns by blast
  then have "groupCacheMock_GroupMemberships ks gcm memberID \<noteq> Inl PanicIndexOutOfRange"
    by (simp add: groupCacheMock_GroupMemberships_def)
  with shape show ?thesis by blast
qed

theorem role_keys_split_in_bounds_witness:
  "gcm_reachable \<lparr>orgs = Map.empty, roles = [''grp-9:user-7'' \<mapsto> ''editor'', '':'' \<mapsto> ''x'']\<rparr>
 \<and> range_keys (roles \<lparr>orgs = Map.empty, roles = [''grp-9:user-7'' \<mapsto> ''editor'', '':'' \<mapsto> ''x'']\<rparr>)
       ['':'', ''grp-9:user-7'']
 \<and> '':'' \<in> dom (roles \<lparr>orgs = Map.empty, roles = [''grp-9:user-7'' \<mapsto> ''editor'', '':'' \<mapsto> ''x'']\<rparr>)
 \<and> 2 \<le> length (Split '':'' CHR '':'')
 \<and> groupCacheMock_GroupMemberships ['':'', ''grp-9:user-7'']
       \<lparr>orgs = Map.empty, roles = [''grp-9:user-7'' \<mapsto> ''editor'', '':'' \<mapsto> ''x'']\<rparr> ''user-7''
     \<noteq> Inl PanicIndexOutOfRange"
proof -
  let ?S1 = "\<lparr>orgs = Map.empty, roles = [''grp-9:user-7'' \<mapsto> ''editor'']\<rparr>"
  let ?S = "\<lparr>orgs = Map.empty, roles = [''grp-9:user-7'' \<mapsto> ''editor'', '':'' \<mapsto> ''x'']\<rparr>"
  have a: "groupCacheMock_SaveRole NewGroupCache ''grp-9'' ''user-7'' ''editor'' = Inr ?S1"
    by (simp add: groupCacheMock_SaveRole_def NewGroupCache_def rKey_def)
  have b: "groupCacheMock_SaveRole ?S1 [] [] ''x'' = Inr ?S"
    by (simp add: groupCacheMock_SaveRole_def rKey_def)
  have "gcm_states (\<lambda>_. True) ?S1"
    by (rule st_SaveRole [OF st_New _ _ a]) simp_all
  then have "gcm_states (\<lambda>_. True) ?S"
    by (rule st_SaveRole [OF _ _ _ b]) simp_all
  then have reach: "gcm_reachable ?S"
    by (simp add: gcm_reachable_def)
  have rk: "range_keys (roles ?S) ['':'', ''grp-9:user-7'']"
    by (auto simp: range_keys_def)
  have dom: "'':'' \<in> dom (roles ?S)"
    by simp
  note inst = role_keys_split_in_bounds [OF reach rk, of "''user-7''"]
  from inst [THEN conjunct1, rule_format, OF dom]
  have len: "2 \<le> length (Split '':'' CHR '':'')"
    by (elim conjE)
  show ?thesis
    by (intro conjI reach rk dom len inst [THEN conjunct2])
qed

text \<open>
  C10, as the claim states it, fails in its second half: after
  \<^verbatim>\<open>SaveRole("a:b","c","r")\<close> the member \<^verbatim>\<open>"b"\<close> has no role in any group
  (\<^verbatim>\<open>ViewRole(g,"b")\<close> fails for every \<open>g\<close>), yet \<^verbatim>\<open>GroupMemberships("b")\<close> returns
  \<^verbatim>\<open>["a"]\<close>, not the empty list.
\<close>

theorem GroupMemberships_no_assignment_counterexample:
  "\<exists>s. groupCacheMock_SaveRole NewGroupCache ''a:b'' ''c'' ''r'' = Inr s
     \<and> gcm_reachable s
     \<and> range_keys (roles s) [''a:b:c'']
     \<and> (\<forall>g. groupCacheMock_ViewRole s g ''b'' = Inl ErrNotFound)
     \<and> groupCacheMock_GroupMemberships [''a:b:c''] s ''b'' = Inr [''a'']"
proof -
  let ?S = "\<lparr>orgs = Map.empty, roles = [''a:b:c'' \<mapsto> ''r'']\<rparr>"
  have a: "groupCacheMock_SaveRole NewGroupCache ''a:b'' ''c'' ''r'' = Inr ?S"
    by (simp add: groupCacheMock_SaveRole_def NewGroupCache_def rKey_def)
  have "gcm_states (\<lambda>_. True) ?S"
    by (rule st_SaveRole [OF st_New _ _ a]) simp_all
  then have b: "gcm_reachable ?S"
    by (simp add: gcm_reachable_def)
  have c: "range_keys (roles ?S) [''a:b:c'']"
    by (simp add: range_keys_def)
  have d: "\<forall>g. groupCacheMock_ViewRole ?S g ''b'' = Inl ErrNotFound"
    by (simp add: groupCacheMock_ViewRole_def rKey_neq_last)
  have e: "groupCacheMock_GroupMemberships [''a:b:c''] ?S ''b'' = Inr [''a'']"
    by (simp add: groupCacheMock_GroupMemberships_def)
  show ?thesis
    by (rule exI [of _ ?S]) (intro conjI a b c d e)
qed

text \<open>
  C10, amended. In every reachable state and for every member identifier,
  \<^verbatim>\<open>GroupMemberships\<close> returns a list and no error, whatever the order of the visit. When
  the state was built with colon-free identifiers and \<^verbatim>\<open>ViewRole(g, memberID)\<close> fails
  for every group \<open>g\<close>, the list is empty.
\<close>

theorem GroupMemberships_never_fails:
  assumes "gcm_reachable gcm" and "range_keys (roles gcm) ks"
  shows "(\<exists>gs. groupCacheMock_GroupMemberships ks gcm memberID = Inr gs)
       \<and> (gcm_states sep_free gcm \<and>
            (\<forall>g. groupCacheMock_ViewRole gcm g memberID = Inl ErrNotFound) \<longrightarrow>
          groupCacheMock_GroupMemberships ks gcm memberID = Inr [])"
proof -
  have "\<And>k. k \<in> set ks \<Longrightarrow> 2 \<le> length (Split k CHR '':'')"
    using assms reachable_key_shape by (simp add: range_keys_def)
  then have ret: "\<exists>gs. groupCacheMock_GroupMemberships ks gcm memberID = Inr gs"
    using loop_returns by (simp add: groupCacheMock_GroupMemberships_def)
  have empty: "groupCacheMock_GroupMemberships ks gcm memberID = Inr []"
    if st: "gcm_states sep_free gcm"
      and none: "\<forall>g. groupCacheMock_ViewRole gcm g memberID = Inl ErrNotFound"
  proof -
    have keys: "\<And>k. k \<in> set ks \<Longrightarrow> \<exists>g m. sep_free g \<and> sep_free m \<and> k = rKey g m"
      using st assms(2) gcm_states_keys [of sep_free gcm] by (auto simp: range_keys_def)
    have "\<And>g. rKey g memberID \<notin> set ks"
      using none assms(2)
      by (auto simp: range_keys_def groupCacheMock_ViewRole_def lookup_NotFound)
    with keys show ?thesis
      by (simp add: groupCacheMock_GroupMemberships_def loop_empty)
  qed
  from ret empty show ?thesis by blast
qed

theorem GroupMemberships_never_fails_witness:
  "gcm_reachable \<lparr>orgs = Map.empty, roles = [''grp-1:user-5'' \<mapsto> ''viewer'']\<rparr>
 \<and> range_keys (roles \<lparr>orgs = Map.empty, roles = [''grp-1:user-5'' \<mapsto> ''viewer'']\<rparr>) [''grp-1:user-5'']
 \<and> gcm_states sep_free \<lparr>orgs = Map.empty, roles = [''grp-1:user-5'' \<mapsto> ''viewer'']\<rparr>
 \<and> (\<forall>g. groupCacheMock_ViewRole \<lparr>orgs = Map.empty, roles = [''grp-1:user-5'' \<mapsto> ''viewer'']\<rparr>
        g ''user-9'' = Inl ErrNotFound)
 \<and> groupCacheMock_GroupMemberships [''grp-1:user-5'']
       \<lparr>orgs = Map.empty, roles = [''grp-1:user-5'' \<mapsto> ''viewer'']\<rparr> ''user-9'' = Inr []
 \<and> (\<exists>gs. groupCacheMock_GroupMemberships [''grp-1:user-5'']
       \<lparr>orgs = Map.empty, roles = [''grp-1:user-5'' \<mapsto> ''viewer'']\<rparr> ''user-5'' = Inr gs)"
proof -
  let ?S = "\<lparr>orgs = Map.empty, roles = [''grp-1:user-5'' \<mapsto> ''viewer'']\<rparr>"
  have a: "groupCacheMock_SaveRole NewGroupCache ''grp-1'' ''user-5'' ''viewer'' = Inr ?S"
    by (simp add: groupCacheMock_SaveRole_def NewGroupCache_def rKey_def)
  have st: "gcm_states sep_free ?S"
    by (rule st_SaveRole [OF st_New sep_free_examples(1,3) a])
  then have reach: "gcm_reachable ?S"
    unfolding gcm_reachable_def by (rule gcm_states_mono)
  have rk: "range_keys (roles ?S) [''grp-1:user-5'']"
    by (simp add: range_keys_def)
  have none: "\<forall>g. groupCacheMock_ViewRole ?S g ''user-9'' = Inl ErrNotFound"
    by (simp add: groupCacheMock_ViewRole_def rKey_neq_last)
  have empty: "groupCacheMock_GroupMemberships [''grp-1:user-5''] ?S ''user-9'' = Inr []"
    by (rule GroupMemberships_never_fails [OF reach rk, THEN conjunct2, rule_format])
      (intro conjI st none)
  show ?thesis
    by (intro conjI reach rk st none empty
        GroupMemberships_never_fails [OF reach rk, THEN conjunct1])
qed

end
